theory Spec2Isabelle
  imports Complex_Main
begin

text \<open>
  The campaign manager's arithmetic: the forecast of the next cycle
  (\<open>computeForecast\<close>), the percentage clamp (\<open>clampPercent\<close>), the redistribution
  of the media allocation when one slider moves (\<open>setAllocForChannel\<close>), the composite
  improvement of an allocation (\<open>computeCompositeImprovement\<close>) and the growth of the
  performance log (\<open>applyImprovement\<close>).
\<close>

section \<open>JavaScript numbers\<close>

text \<open>
  A JavaScript number is NaN, one of the two infinities, or a finite value. A finite
  value is modelled by the real number it denotes and arithmetic on finite values is
  exact: the rounding of intermediate results to 64-bit doubles is not part of the
  model, and the two zeros are one value. The special values follow IEEE 754: NaN is
  absorbing, every comparison with NaN is false, and the undefined forms
  (\<open>\<infinity> - \<infinity>\<close>, \<open>0 * \<infinity>\<close>, \<open>\<infinity> / \<infinity>\<close>, \<open>0 / 0\<close>) are NaN.
\<close>

datatype jsnum = NaN | PosInf | NegInf | Fin real

fun jneg :: "jsnum \<Rightarrow> jsnum" where
  "jneg NaN = NaN"
| "jneg PosInf = NegInf"
| "jneg NegInf = PosInf"
| "jneg (Fin a) = Fin (- a)"

fun jadd :: "jsnum \<Rightarrow> jsnum \<Rightarrow> jsnum" where
  "jadd (Fin a) (Fin b) = Fin (a + b)"
| "jadd NaN _ = NaN"
| "jadd _ NaN = NaN"
| "jadd PosInf NegInf = NaN"
| "jadd NegInf PosInf = NaN"
| "jadd PosInf _ = PosInf"
| "jadd _ PosInf = PosInf"
| "jadd NegInf _ = NegInf"
| "jadd _ NegInf = NegInf"

definition jsub :: "jsnum \<Rightarrow> jsnum \<Rightarrow> jsnum" where
  "jsub a b = jadd a (jneg b)"

text \<open>The sign of an infinite product or quotient: \<open>inf_of True\<close> is \<open>+\<infinity>\<close>.\<close>

definition inf_of :: "bool \<Rightarrow> jsnum" where
  "inf_of pos = (if pos then PosInf else NegInf)"

fun jmul :: "jsnum \<Rightarrow> jsnum \<Rightarrow> jsnum" where
  "jmul (Fin a) (Fin b) = Fin (a * b)"
| "jmul NaN _ = NaN"
| "jmul _ NaN = NaN"
| "jmul PosInf (Fin b) = (if b = 0 then NaN else inf_of (0 < b))"
| "jmul NegInf (Fin b) = (if b = 0 then NaN else inf_of (b < 0))"
| "jmul (Fin a) PosInf = (if a = 0 then NaN else inf_of (0 < a))"
| "jmul (Fin a) NegInf = (if a = 0 then NaN else inf_of (a < 0))"
| "jmul PosInf PosInf = PosInf"
| "jmul PosInf NegInf = NegInf"
| "jmul NegInf PosInf = NegInf"
| "jmul NegInf NegInf = PosInf"

fun jdiv :: "jsnum \<Rightarrow> jsnum \<Rightarrow> jsnum" where
  "jdiv (Fin a) (Fin b) =
     (if b = 0 then (if a = 0 then NaN else inf_of (0 < a)) else Fin (a / b))"
| "jdiv NaN _ = NaN"
| "jdiv _ NaN = NaN"
| "jdiv (Fin a) _ = Fin 0"
| "jdiv PosInf (Fin b) = inf_of (0 \<le> b)"
| "jdiv NegInf (Fin b) = inf_of (b < 0)"
| "jdiv _ _ = NaN"

fun jlt :: "jsnum \<Rightarrow> jsnum \<Rightarrow> bool" where
  "jlt (Fin a) (Fin b) = (a < b)"
| "jlt NaN _ = False"
| "jlt _ NaN = False"
| "jlt _ NegInf = False"
| "jlt PosInf _ = False"
| "jlt _ _ = True"

definition jgt :: "jsnum \<Rightarrow> jsnum \<Rightarrow> bool" where
  "jgt a b = jlt b a"

text \<open>Strict equality \<open>===\<close> on numbers: NaN equals nothing, itself included.\<close>

definition jeq :: "jsnum \<Rightarrow> jsnum \<Rightarrow> bool" where
  "jeq a b = (a \<noteq> NaN \<and> b \<noteq> NaN \<and> a = b)"


text \<open>\<open>Math.round\<close> rounds to the nearest integer, a tie going up.\<close>

fun Math_round :: "jsnum \<Rightarrow> jsnum" where
  "Math_round (Fin a) = Fin (of_int \<lfloor>a + 1 / 2\<rfloor>)"
| "Math_round x = x"

fun Math_floor :: "jsnum \<Rightarrow> jsnum" where
  "Math_floor (Fin a) = Fin (of_int \<lfloor>a\<rfloor>)"
| "Math_floor x = x"

definition Math_max :: "jsnum \<Rightarrow> jsnum \<Rightarrow> jsnum" where
  "Math_max a b = (if a = NaN \<or> b = NaN then NaN else if jlt a b then b else a)"

definition Math_min :: "jsnum \<Rightarrow> jsnum \<Rightarrow> jsnum" where
  "Math_min a b = (if a = NaN \<or> b = NaN then NaN else if jlt b a then b else a)"

text \<open>
  \<open>+(x).toFixed(2)\<close>: \<open>toFixed(2)\<close> prints the decimal with two fraction digits that
  is nearest to \<open>x\<close>, the larger magnitude on a tie, under the sign of \<open>x\<close>; the unary
  plus reads the string back. From \<open>10\<^sup>2\<^sup>1\<close> on, \<open>toFixed\<close> prints the number itself;
  a double of that size is an integer, and an integer is left unchanged by the rounding
  below (lemma \<open>toFixed2_of_int\<close>), so the model has no separate branch for it.
\<close>

fun toFixed2 :: "jsnum \<Rightarrow> jsnum" where
  "toFixed2 (Fin a) = Fin (sgn a * of_int \<lfloor>\<bar>a\<bar> * 100 + 1 / 2\<rfloor> / 100)"
| "toFixed2 x = x"

text \<open>\<open>n || 0\<close>: the falsy numbers are zero and NaN.\<close>

definition or_zero :: "jsnum \<Rightarrow> jsnum" where
  "or_zero n = (if n = NaN \<or> n = Fin 0 then Fin 0 else n)"

section \<open>Helpers\<close>

record forecast =
  CPA :: jsnum
  Conversions :: jsnum

definition computeForecast :: "forecast \<Rightarrow> jsnum \<Rightarrow> forecast" where
  "computeForecast lastp improvement =
     (let newCPA = toFixed2 (jmul (CPA lastp) (jsub (Fin 1) (jdiv improvement (Fin 100))));
          newConversions =
            Math_round (jmul (Conversions lastp) (jadd (Fin 1) (jdiv improvement (Fin 100))))
      in \<lparr>CPA = newCPA, Conversions = newConversions\<rparr>)"

definition clampPercent :: "jsnum \<Rightarrow> jsnum" where
  "clampPercent n =
     (if n = NaN then Fin 0
      else if jlt n (Fin 0) then Fin 0
      else if jgt n (Fin 100) then Fin 100
      else Math_round n)"

section \<open>Media allocation\<close>

text \<open>
  The allocation object has the four keys below, always present; reads and writes go
  through a computed key (\<open>newAlloc[o]\<close>), so the object is modelled as a function
  from keys to numbers and a write as a function update.
\<close>

datatype channel = OOH | TV | Digital | CTV

type_synonym alloc = "channel \<Rightarrow> jsnum"

text \<open>The object literal \<open>{OOH: a, TV: b, Digital: c, CTV: d}\<close>.\<close>

fun alloc_of :: "jsnum \<Rightarrow> jsnum \<Rightarrow> jsnum \<Rightarrow> jsnum \<Rightarrow> alloc" where
  "alloc_of a b c d OOH = a"
| "alloc_of a b c d TV = b"
| "alloc_of a b c d Digital = c"
| "alloc_of a b c d CTV = d"

definition initialMediaAlloc :: alloc where
  "initialMediaAlloc = alloc_of (Fin 30) (Fin 30) (Fin 25) (Fin 15)"

definition keys :: "channel list" where
  "keys = [OOH, TV, Digital, CTV]"

text \<open>\<open>Object.values(newAlloc)\<close>: the values in insertion order, which is the key order.\<close>

definition Object_values :: "alloc \<Rightarrow> jsnum list" where
  "Object_values m = map m keys"

text \<open>
  \<open>setAllocForChannel\<close> reads the state \<open>mediaAlloc\<close> and ends in \<open>setMediaAlloc\<close>;
  the model takes the state and returns the new one.
\<close>

definition setAllocForChannel :: "alloc \<Rightarrow> channel \<Rightarrow> jsnum \<Rightarrow> alloc" where
  "setAllocForChannel mediaAlloc channel rawVal =
     (let val = Math_max (Fin 0) (Math_min (Fin 100) (Math_round rawVal));
          others = filter (\<lambda>k. k \<noteq> channel) keys;
          prevOthersSum = foldl (\<lambda>s k. jadd s (mediaAlloc k)) (Fin 0) others;
          remaining = Math_max (Fin 0) (jsub (Fin 100) val);
          newAlloc0 = mediaAlloc(channel := val);
          newAlloc1 =
            (if jgt prevOthersSum (Fin 0)
             then foldl (\<lambda>na o'. na(o' := Math_round
                           (jmul (jdiv (mediaAlloc o') prevOthersSum) remaining)))
                    newAlloc0 others
             else
               (let per = Math_floor (jdiv remaining (Fin (of_nat (length others))));
                    na = foldl (\<lambda>na o'. na(o' := per)) newAlloc0 others;
                    sumNow = foldl (\<lambda>s o'. jadd s (na o')) (Fin 0) others;
                    rem = jsub remaining sumNow
                in if jgt rem (Fin 0)
                   then na(others ! 0 := jadd (na (others ! 0)) rem)
                   else na));
          total = foldl (\<lambda>s n. jadd s (or_zero n)) (Fin 0) (Object_values newAlloc1)
      in if \<not> jeq total (Fin 100)
         then
           (let delta = jsub (Fin 100) total;
                firstAdjustKey =
                  (case find (\<lambda>k. k \<noteq> channel) keys of Some k \<Rightarrow> k | None \<Rightarrow> channel)
            in newAlloc1(firstAdjustKey :=
                 Math_max (Fin 0) (jadd (or_zero (newAlloc1 firstAdjustKey)) delta)))
         else newAlloc1)"

text \<open>A session of slider moves: each one sets one channel from the current state.\<close>

fun setAllocs :: "alloc \<Rightarrow> (channel \<times> jsnum) list \<Rightarrow> alloc" where
  "setAllocs m [] = m"
| "setAllocs m ((c, v) # cs) = setAllocs (setAllocForChannel m c v) cs"

definition alloc_sum :: "alloc \<Rightarrow> jsnum" where
  "alloc_sum m = jadd (jadd (jadd (m OOH) (m TV)) (m Digital)) (m CTV)"

section \<open>Composite improvement\<close>

record subcategory =
  name :: string
  improvement :: jsnum

definition mediaInventorySubcategories :: "subcategory list" where
  "mediaInventorySubcategories =
     [\<lparr>name = ''Out-of-Home (OOH)'', improvement = Fin (133 / 10)\<rparr>,
      \<lparr>name = ''TV'', improvement = Fin (102 / 10)\<rparr>,
      \<lparr>name = ''Digital'', improvement = Fin (39 / 10)\<rparr>,
      \<lparr>name = ''Connected TV'', improvement = Fin (22 / 10)\<rparr>]"

definition dataFeedSubcategories :: "subcategory list" where
  "dataFeedSubcategories =
     [\<lparr>name = ''CDP Data (batch or real-time)'', improvement = Fin 5\<rparr>,
      \<lparr>name = ''Product Catalog Data'', improvement = Fin 4\<rparr>,
      \<lparr>name = ''Identity Data (personalization)'', improvement = Fin 6\<rparr>,
      \<lparr>name = ''Variant Scaling Data (colors, headlines, CTAs)'', improvement = Fin 3\<rparr>]"


section \<open>Insights and the performance log\<close>

record PerformancePoint =
  cycle :: string
  actualCPA :: jsnum
  actualConversions :: jsnum
  forecastCPA :: jsnum
  forecastConversions :: jsnum

record AICycleActivity =
  activity_cycle :: string
  suggested :: "string list"
  implemented :: "string list"
  requestedButNotControlled :: "string list"

text \<open>
  The fields \<open>text\<close> and \<open>improvement\<close> of an insight are \<open>insight_text\<close> and
  \<open>insight_improvement\<close> here.
\<close>

record Insight =
  insight_text :: string
  insight_improvement :: jsnum
  aiControl :: "string list"
  aiRequest :: "string list"

definition initialPerformanceData :: "PerformancePoint list" where
  "initialPerformanceData =
     [\<lparr>cycle = ''Cycle 1'', actualCPA = Fin 48, actualConversions = Fin 150,
       forecastCPA = Fin 50, forecastConversions = Fin 125\<rparr>,
      \<lparr>cycle = ''Cycle 2'', actualCPA = Fin 43, actualConversions = Fin 155,
       forecastCPA = Fin 45, forecastConversions = Fin 150\<rparr>,
      \<lparr>cycle = ''Cycle 3'', actualCPA = Fin 40, actualConversions = Fin 175,
       forecastCPA = Fin 42, forecastConversions = Fin 165\<rparr>,
      \<lparr>cycle = ''Cycle 4'', actualCPA = Fin 38, actualConversions = Fin 195,
       forecastCPA = Fin 40, forecastConversions = Fin 190\<rparr>]"

text \<open>
  The insight table, an object literal, as an association list in key order. One of
  the two source files names it \<open>baseInsights\<close>; the other repeats the literal at each
  use, with a sixth entry. The functions below take the table as their first argument.
\<close>

definition baseInsights :: "(string \<times> Insight) list" where
  "baseInsights =
     [(''Audience'',
       \<lparr>insight_text = ''Refine audience targeting towards high converters to reduce CPA.'',
        insight_improvement = Fin 8,
        aiControl = [''Lookalike audience expansion'', ''Demographic targeting refinements''],
        aiRequest = [''Access to CRM segments'', ''Geo-location targeting permissions'']\<rparr>),
      (''Landing Page'',
       \<lparr>insight_text = ''Run A/B tests with simplified layouts to improve conversion rates.'',
        insight_improvement = Fin 10,
        aiControl = [''Headline/CTA suggestions'', ''Layout recommendations''],
        aiRequest = [''Ability to modify landing page templates'',
                     ''Access to form conversion data'']\<rparr>),
      (''Media Inventory'',
       \<lparr>insight_text = ''Shift spend towards publishers delivering the lowest CPA. Based on goals (e.g., awareness), some channels are more effective than others.'',
        insight_improvement = Fin 6,
        aiControl = [''Budget allocation recommendations'', ''Channel performance analysis''],
        aiRequest = [''Authority to adjust media mix'', ''Direct DSP access'']\<rparr>),
      (''Creative'',
       \<lparr>insight_text = ''Test new ad concepts with different CTAs and visuals to boost engagement.'',
        insight_improvement = Fin 12,
        aiControl = [''Automated creative variant generation'', ''Dynamic CTA testing''],
        aiRequest = [''Direct integration with creative approval workflows'',
                     ''Access to DAM for assets'']\<rparr>),
      (''Data Feed Optimization'',
       \<lparr>insight_text = ''Leverage DCO to personalize creative with real-time product data.'',
        insight_improvement = Fin 7,
        aiControl = [''Real-time feed monitoring'', ''Automated variant insertion''],
        aiRequest = [''Permission to modify product catalog fields'',
                     ''Deeper CDP integration'']\<rparr>)]"

definition inlineInsights :: "(string \<times> Insight) list" where
  "inlineInsights =
     baseInsights @
     [(''AI Activities'',
       \<lparr>insight_text = [], insight_improvement = Fin 0, aiControl = [], aiRequest = []\<rparr>)]"

definition findParentPanel :: "(string \<times> Insight) list \<Rightarrow> string \<Rightarrow> string option" where
  "findParentPanel insights label =
     (if label \<in> set (map fst insights) then Some label
      else if list_ex (\<lambda>s. name s = label) mediaInventorySubcategories
      then Some ''Media Inventory''
      else if list_ex (\<lambda>s. name s = label) dataFeedSubcategories
      then Some ''Data Feed Optimization''
      else None)"

record app_state =
  performanceData :: "PerformancePoint list"
  aiActivities :: "AICycleActivity list"

datatype error = TypeError

text \<open>
  \<open>panelKey\<close> is used as a condition: \<open>undefined\<close> and the empty string are falsy.
  \<open>lookup_insight\<close> is \<open>panelKey ? table[panelKey] : undefined\<close>.
\<close>

definition lookup_insight :: "(string \<times> Insight) list \<Rightarrow> string option \<Rightarrow> Insight option" where
  "lookup_insight insights panelKey =
     (case panelKey of
        None \<Rightarrow> None
      | Some k \<Rightarrow> if k = [] then None else map_of insights k)"

text \<open>The arrow U+2192 of the template literal, as its three UTF-8 bytes.\<close>

definition arrow :: string where
  "arrow = [CHR 0xE2, CHR 0x86, CHR 0x92]"

text \<open>
  The local constant \<open>imp\<close> of \<open>applyImprovement\<close>:
  \<open>improvement ?? (panelKey ? table[panelKey]?.improvement || 0 : 0)\<close>, the optional
  argument being an \<open>option\<close>.
\<close>

definition imp :: "(string \<times> Insight) list \<Rightarrow> string \<Rightarrow> jsnum option \<Rightarrow> jsnum" where
  "imp insights label impr =
     (case impr of
        Some v \<Rightarrow> v
      | None \<Rightarrow>
          (case lookup_insight insights (findParentPanel insights label) of
             Some info \<Rightarrow> or_zero (insight_improvement info)
           | None \<Rightarrow> Fin 0))"

text \<open>
  \<open>applyImprovement\<close> reads the last point of the log; on an empty log that read is
  \<open>undefined\<close> and the access to its field throws. \<open>numToString\<close> is the conversion of
  a number to text in the template literal, taken as a parameter. The two state
  setters append to the log and to the activity list; the model takes the state at
  the call and returns the state after it, the component being rendered again
  between two calls.
\<close>

definition applyImprovement ::
  "(string \<times> Insight) list \<Rightarrow> (jsnum \<Rightarrow> string) \<Rightarrow> string \<Rightarrow> jsnum option \<Rightarrow>
   app_state \<Rightarrow> error + app_state" where
  "applyImprovement insights numToString label impr st =
     (if performanceData st = [] then Inl TypeError
      else
        (let lastp = last (performanceData st);
             panelKey = findParentPanel insights label;
             fc = computeForecast
                    \<lparr>CPA = forecastCPA lastp, Conversions = forecastConversions lastp\<rparr>
                    (imp insights label impr);
             point = \<lparr>cycle = ''Forecast: '' @ label,
                      actualCPA = actualCPA lastp,
                      actualConversions = actualConversions lastp,
                      forecastCPA = CPA fc,
                      forecastConversions = Conversions fc\<rparr>;
             info = lookup_insight insights panelKey;
             suggested0 = (case info of Some i \<Rightarrow> [insight_text i] | None \<Rightarrow> []);
             implemented0 =
               (case info of Some i \<Rightarrow> map (\<lambda>c. ''Did: '' @ c) (aiControl i) | None \<Rightarrow> []);
             requested0 =
               (case info of Some i \<Rightarrow> map (\<lambda>r. ''Requested: '' @ r) (aiRequest i)
                | None \<Rightarrow> []);
             activity =
               \<lparr>activity_cycle = ''Forecast: '' @ label,
                suggested = suggested0,
                implemented = implemented0 @
                  [''Applied forecast change: +'' @ numToString (imp insights label impr) @
                   ''% '' @ arrow @ '' '' @ label],
                requestedButNotControlled = requested0\<rparr>
         in Inr \<lparr>performanceData = performanceData st @ [point],
                 aiActivities = aiActivities st @ [activity]\<rparr>))"

text \<open>A session of apply actions, each one on the state the previous one left.\<close>

fun applyAll ::
  "(string \<times> Insight) list \<Rightarrow> (jsnum \<Rightarrow> string) \<Rightarrow> (string \<times> jsnum option) list \<Rightarrow>
   app_state \<Rightarrow> error + app_state" where
  "applyAll insights numToString [] st = Inr st"
| "applyAll insights numToString ((label, impr) # cs) st =
     (case applyImprovement insights numToString label impr st of
        Inl e \<Rightarrow> Inl e
      | Inr st' \<Rightarrow> applyAll insights numToString cs st')"

section \<open>Specification vocabulary\<close>

text \<open>
  \<open>rounded_to d x y\<close>: \<open>y\<close> is \<open>x\<close> rounded to \<open>d\<close> decimal places, that is, \<open>y\<close> is
  a multiple of \<open>10\<^sup>-\<^sup>d\<close> and lies within half a unit of the last place of \<open>x\<close>. Which
  neighbour a tie goes to is left open, as it is in the specification.
\<close>

definition rounded_to :: "nat \<Rightarrow> real \<Rightarrow> real \<Rightarrow> bool" where
  "rounded_to d x y \<longleftrightarrow>
     of_int \<lfloor>y * 10 ^ d\<rfloor> = y * 10 ^ d \<and> \<bar>y - x\<bar> * (2 * 10 ^ d) \<le> 1"

text \<open>
  Step 1 of the redistribution: the raw value rounded to the nearest integer and
  clamped to the range from 0 to 100.
\<close>

definition clamp_round :: "real \<Rightarrow> int" where
  "clamp_round r = max 0 (min 100 \<lfloor>r + 1 / 2\<rfloor>)"



text \<open>The number of an integer.\<close>

definition Num :: "int \<Rightarrow> jsnum" where
  "Num a = Fin (of_int a)"

section \<open>Rounding\<close>

lemma half_up_near: "\<bar>of_int \<lfloor>x + 1 / 2\<rfloor> - x\<bar> \<le> 1 / (2::real)"
  by linarith

lemma floor_int_half: "\<lfloor>of_int m + 1 / (2::real)\<rfloor> = m"
  by linarith

lemma half_up_rounded: "rounded_to 0 x (of_int \<lfloor>x + 1 / 2\<rfloor>)"
  using half_up_near [of x] by (simp add: rounded_to_def)


text \<open>An integer is printed by \<open>toFixed(2)\<close> with two zeros and read back unchanged.\<close>

lemma toFixed2_of_int: "toFixed2 (Fin (of_int k)) = Fin (of_int k)"
proof -
  have "\<bar>of_int k :: real\<bar> * 100 + 1 / 2 = of_int (\<bar>k\<bar> * 100) + 1 / 2" by simp
  then have "\<lfloor>\<bar>of_int k :: real\<bar> * 100 + 1 / 2\<rfloor> = \<bar>k\<bar> * 100"
    by (simp only: floor_int_half)
  then show ?thesis by (simp add: sgn_if)
qed

section \<open>The forecast\<close>

text \<open>The assertions of the source's own development-time tests.\<close>

lemma computeForecast_dev_tests:
  "computeForecast \<lparr>CPA = Fin 100, Conversions = Fin 200\<rparr> (Fin 10) =
     \<lparr>CPA = Fin 90, Conversions = Fin 220\<rparr>"
  "computeForecast \<lparr>CPA = Fin 100, Conversions = Fin 200\<rparr> (Fin 0) =
     \<lparr>CPA = Fin 100, Conversions = Fin 200\<rparr>"
  "computeForecast \<lparr>CPA = Fin 40, Conversions = Fin 190\<rparr> (Fin (5 / 2)) =
     \<lparr>CPA = Fin 39, Conversions = Fin 195\<rparr>"
  "computeForecast \<lparr>CPA = Fin 80, Conversions = Fin 50\<rparr> (Fin 100) =
     \<lparr>CPA = Fin 0, Conversions = Fin 100\<rparr>"
  by (simp_all add: computeForecast_def jsub_def)



text \<open>
  C5, as stated, fails: with improvement 0 the CPA is still rounded to two decimal
  places. The CPA 40.0625 comes back as 40.06.
\<close>

theorem computeForecast_zero_not_identity:
  "computeForecast \<lparr>CPA = Fin (641 / 16), Conversions = Fin 50\<rparr> (Fin 0) =
     \<lparr>CPA = Fin (2003 / 50), Conversions = Fin 50\<rparr> \<and>
   computeForecast \<lparr>CPA = Fin (641 / 16), Conversions = Fin 50\<rparr> (Fin 0) \<noteq>
     \<lparr>CPA = Fin (641 / 16), Conversions = Fin 50\<rparr>"
  by (simp add: computeForecast_def jsub_def)

text \<open>
  C5, amended. When the CPA has at most two decimal places (it is \<open>k / 100\<close> for an
  integer \<open>k\<close>) and Conversions is an integer, \<open>computeForecast\<close> with improvement 0
  returns its input.
\<close>

theorem computeForecast_zero_identity:
  "computeForecast \<lparr>CPA = Fin (of_int k / 100), Conversions = Fin (of_int n)\<rparr> (Fin 0) =
     \<lparr>CPA = Fin (of_int k / 100), Conversions = Fin (of_int n)\<rparr>"
proof -
  have "\<lfloor>\<bar>of_int k :: real\<bar> + 1 / 2\<rfloor> = \<bar>k\<bar>"
    using floor_int_half [of "\<bar>k\<bar>"] by simp
  moreover have "sgn (of_int k :: real) * of_int \<bar>k\<bar> = of_int k"
    by (simp add: sgn_if)
  ultimately show ?thesis
    by (simp add: computeForecast_def jsub_def floor_int_half)
qed

section \<open>The percentage clamp\<close>

text \<open>
  C10. \<open>clampPercent\<close> returns an integer between 0 and 100 for every number: 0 for
  NaN, for \<open>-\<infinity>\<close> and for a negative input, 100 for \<open>+\<infinity>\<close> and for an input above
  100, and the nearest integer for an input in the range.
\<close>

theorem clampPercent_range:
  "(\<exists>k::int. 0 \<le> k \<and> k \<le> 100 \<and> clampPercent n = Fin (of_int k)) \<and>
   clampPercent NaN = Fin 0 \<and> clampPercent NegInf = Fin 0 \<and> clampPercent PosInf = Fin 100 \<and>
   (r1 < 0 \<longrightarrow> clampPercent (Fin r1) = Fin 0) \<and>
   (100 < r2 \<longrightarrow> clampPercent (Fin r2) = Fin 100) \<and>
   (0 \<le> r3 \<and> r3 \<le> 100 \<longrightarrow>
      clampPercent (Fin r3) = Fin (of_int \<lfloor>r3 + 1 / 2\<rfloor>) \<and>
      rounded_to 0 r3 (of_int \<lfloor>r3 + 1 / 2\<rfloor>))"
proof -
  have range: "\<exists>k::int. 0 \<le> k \<and> k \<le> 100 \<and> clampPercent n = Fin (of_int k)"
  proof (cases n)
    case (Fin r)
    show ?thesis
    proof (cases "r < 0 \<or> 100 < r")
      case True
      then show ?thesis
        using Fin by (auto simp: clampPercent_def jgt_def intro: exI [of _ 0] exI [of _ 100])
    next
      case False
      then have "0 \<le> \<lfloor>r + 1 / 2\<rfloor>" and "\<lfloor>r + 1 / 2\<rfloor> \<le> 100"
        by linarith+
      with False Fin show ?thesis
        by (auto simp: clampPercent_def jgt_def)
    qed
  qed (auto simp: clampPercent_def jgt_def intro: exI [of _ 0] exI [of _ 100])
  show ?thesis
    using range half_up_rounded [of r3]
    by (simp add: clampPercent_def jgt_def)
qed

text \<open>The clamp assertions of the source's development-time tests.\<close>

theorem clampPercent_range_witness:
  "clampPercent (Fin (-5)) = Fin 0 \<and> clampPercent (Fin 105) = Fin 100 \<and>
   clampPercent (Fin (496 / 10)) = Fin 50"
  using clampPercent_range [of NaN "-5" 105 "496 / 10"] by simp

section \<open>Arithmetic on integer numbers\<close>

lemma Fin_numeral_Num: "Fin 0 = Num 0" "Fin 1 = Num 1" "Fin (numeral w) = Num (numeral w)"
  by (simp_all add: Num_def)

lemma Num_eq [simp]: "Num a = Num b \<longleftrightarrow> a = b"
  by (simp add: Num_def)

lemma Num_not_NaN [simp]: "Num a \<noteq> NaN" "NaN \<noteq> Num a"
  by (simp_all add: Num_def)

lemma jadd_Num0: "jadd (Num 0) y = y"
  by (cases y) (simp_all add: Num_def)

lemma jadd_NN: "jadd (Num a) (Num b) = Num (a + b)"
  by (simp add: Num_def)

lemma jsub_NN: "jsub (Num a) (Num b) = Num (a - b)"
  by (simp add: Num_def jsub_def)

lemma Math_max_NN: "Math_max (Num a) (Num b) = Num (max a b)"
  by (simp add: Num_def Math_max_def max_def)

lemma Math_min_NN: "Math_min (Num a) (Num b) = Num (min a b)"
  by (simp add: Num_def Math_min_def min_def)

lemma jgt_NN: "jgt (Num a) (Num b) \<longleftrightarrow> b < a"
  by (simp add: Num_def jgt_def)

lemma jgt_Fin_N0: "jgt (Fin s) (Num 0) \<longleftrightarrow> 0 < s"
  by (simp add: Num_def jgt_def)

lemma jeq_NN: "jeq (Num a) (Num b) \<longleftrightarrow> a = b"
  by (simp add: Num_def jeq_def)

lemma or_zero_N: "or_zero (Num a) = Num a"
  by (simp add: Num_def or_zero_def)

lemma floor_div_N3: "Math_floor (jdiv (Num a) (Num 3)) = Num (a div 3)"
proof -
  have "of_int a / (3::real) = of_int a / of_int 3" by simp
  then have "\<lfloor>of_int a / (3::real)\<rfloor> = a div 3" by (simp only: floor_divide_of_int_eq)
  then show ?thesis by (simp add: Num_def)
qed

lemma Math_round_Fin_N: "Math_round (Fin a) = Num \<lfloor>a + 1 / 2\<rfloor>"
  by (simp add: Num_def)


lemmas Num_ops = Fin_numeral_Num jadd_Num0 jadd_NN jsub_NN Math_max_NN Math_min_NN jgt_NN
  jgt_Fin_N0 jeq_NN or_zero_N

text \<open>The value \<open>val\<close> that \<open>setAllocForChannel\<close> computes from the raw value.\<close>

lemma val_raw:
  "Math_max (Num 0) (Math_min (Num 100) (Math_round (Fin r))) = Num (clamp_round r)"
  "Math_max (Num 0) (Math_min (Num 100) (Math_round PosInf)) = Num 100"
  "Math_max (Num 0) (Math_min (Num 100) (Math_round NegInf)) = Num 0"
proof -
  show "Math_max (Num 0) (Math_min (Num 100) (Math_round (Fin r))) = Num (clamp_round r)"
    by (simp only: Math_round_Fin_N Math_min_NN Math_max_NN clamp_round_def)
qed (simp_all add: Num_def Math_max_def Math_min_def)

lemma clamp_round_range: "0 \<le> clamp_round r" "clamp_round r \<le> 100"
  by (simp_all add: clamp_round_def)



section \<open>The redistribution\<close>

subsection \<open>The other three channels\<close>

lemma others_cases:
  assumes "filter (\<lambda>k. k \<noteq> ch) keys = [o1, o2, o3]"
  shows "ch = OOH \<and> o1 = TV \<and> o2 = Digital \<and> o3 = CTV \<or>
         ch = TV \<and> o1 = OOH \<and> o2 = Digital \<and> o3 = CTV \<or>
         ch = Digital \<and> o1 = OOH \<and> o2 = TV \<and> o3 = CTV \<or>
         ch = CTV \<and> o1 = OOH \<and> o2 = TV \<and> o3 = Digital"
  using assms by (cases ch) (simp_all add: keys_def)





subsection \<open>The two branches on a finite allocation\<close>

text \<open>
  The others sum to zero or less: each gets the integer third of what remains and the
  first of them the leftover. The four values then sum to 100 and the final adjustment
  does not apply.
\<close>

lemma equal_split_val:
  assumes others: "filter (\<lambda>k. k \<noteq> ch) keys = [o1, o2, o3]"
    and S: "x o1 + x o2 + x o3 \<le> 0"
    and v: "0 \<le> v" "v \<le> 100"
    and val: "Math_max (Num 0) (Math_min (Num 100) (Math_round raw)) = Num v"
  shows "setAllocForChannel (\<lambda>k. Fin (x k)) ch raw ch = Num v \<and>
         setAllocForChannel (\<lambda>k. Fin (x k)) ch raw o1 =
           Num ((100 - v) div 3 + (100 - v) mod 3) \<and>
         setAllocForChannel (\<lambda>k. Fin (x k)) ch raw o2 = Num ((100 - v) div 3) \<and>
         setAllocForChannel (\<lambda>k. Fin (x k)) ch raw o3 = Num ((100 - v) div 3)"
proof -
  define q r where "q = (100 - v) div 3" and "r = (100 - v) mod 3"
  have qr: "100 - v - (q + q + q) = r" "0 \<le> r"
    by (simp_all add: q_def r_def minus_mult_div_eq_mod [symmetric])
  have mx: "max 0 (100 - v) = 100 - v" using v by simp
  have per: "Math_floor (jdiv (Num (100 - v)) (Num 3)) = Num q"
    by (simp only: floor_div_N3 q_def)
  from others_cases [OF others] show ?thesis
    unfolding q_def [symmetric] r_def [symmetric]
    using qr S
    by (elim disjE conjE;
        simp add: setAllocForChannel_def keys_def Object_values_def Let_def
          Num_ops val mx per;
        (auto simp add: algebra_simps)?)
qed



subsection \<open>Evaluation on concrete allocations\<close>

lemmas setAlloc_defs =
  setAllocForChannel_def keys_def Object_values_def Math_max_def Math_min_def
  jsub_def jgt_def jeq_def or_zero_def inf_of_def Let_def

lemma setAlloc_step1:
  "setAllocForChannel initialMediaAlloc OOH (Fin 0) =
     alloc_of (Fin 0) (Fin 43) (Fin 36) (Fin 21)"
proof (rule ext)
  fix k show "setAllocForChannel initialMediaAlloc OOH (Fin 0) k =
     alloc_of (Fin 0) (Fin 43) (Fin 36) (Fin 21) k"
    by (cases k) (simp_all add: setAlloc_defs initialMediaAlloc_def)
qed

lemma setAlloc_step2:
  "setAllocForChannel (alloc_of (Fin 0) (Fin 43) (Fin 36) (Fin 21)) CTV (Fin 98) =
     alloc_of (Fin 0) (Fin 1) (Fin 1) (Fin 98)"
proof (rule ext)
  fix k show "setAllocForChannel (alloc_of (Fin 0) (Fin 43) (Fin 36) (Fin 21)) CTV (Fin 98) k =
     alloc_of (Fin 0) (Fin 1) (Fin 1) (Fin 98) k"
    by (cases k) (simp_all add: setAlloc_defs)
qed

lemma setAlloc_step3:
  "setAllocForChannel (alloc_of (Fin 0) (Fin 1) (Fin 1) (Fin 98)) CTV (Fin 99) =
     alloc_of (Fin 0) (Fin 1) (Fin 1) (Fin 99)"
proof (rule ext)
  fix k show "setAllocForChannel (alloc_of (Fin 0) (Fin 1) (Fin 1) (Fin 98)) CTV (Fin 99) k =
     alloc_of (Fin 0) (Fin 1) (Fin 1) (Fin 99) k"
    by (cases k) (simp_all add: setAlloc_defs)
qed

text \<open>
  C1 fails on the code. From the allocation 0, 1, 1, 98, which sums to 100, setting CTV
  to 99 leaves 1 for the others; TV and Digital each round their half up to 1, the
  total is 101, and the adjustment of \<open>-1\<close> to OOH is cut off at 0. The result sums to
  101. The allocation 0, 1, 1, 98 is reached from the initial allocation by setting OOH
  to 0 and then CTV to 98.
\<close>

theorem setAlloc_total_101:
  "alloc_sum (alloc_of (Fin 0) (Fin 1) (Fin 1) (Fin 98)) = Fin 100 \<and>
   setAllocForChannel (alloc_of (Fin 0) (Fin 1) (Fin 1) (Fin 98)) CTV (Fin 99) =
     alloc_of (Fin 0) (Fin 1) (Fin 1) (Fin 99) \<and>
   alloc_sum (setAllocForChannel (alloc_of (Fin 0) (Fin 1) (Fin 1) (Fin 98)) CTV (Fin 99)) =
     Fin 101 \<and>
   setAllocs initialMediaAlloc [(OOH, Fin 0), (CTV, Fin 98)] =
     alloc_of (Fin 0) (Fin 1) (Fin 1) (Fin 98)"
  by (simp add: setAlloc_step1 setAlloc_step2 setAlloc_step3 alloc_sum_def)

lemma setAllocForChannel_NaN:
  "setAllocForChannel initialMediaAlloc OOH NaN = alloc_of NaN (Fin 100) NaN NaN"
proof (rule ext)
  fix k show "setAllocForChannel initialMediaAlloc OOH NaN k = alloc_of NaN (Fin 100) NaN NaN k"
    by (cases k) (simp_all add: setAlloc_defs initialMediaAlloc_def)
qed

subsection \<open>Setting a channel to 100\<close>

text \<open>
  C7. On every finite allocation, setting a channel to 100 gives that channel 100 and
  each of the other three 0.
\<close>

theorem setAlloc_full:
  "setAllocForChannel (\<lambda>k. Fin (x k)) ch (Fin 100) = (\<lambda>k. if k = ch then Fin 100 else Fin 0)"
proof (rule ext)
  fix k
  show "setAllocForChannel (\<lambda>k. Fin (x k)) ch (Fin 100) k = (if k = ch then Fin 100 else Fin 0)"
    by (cases ch; cases k) (simp_all add: setAlloc_defs)
qed

subsection \<open>The equal split\<close>

text \<open>
  C8. When the three other channels, \<open>o1\<close>, \<open>o2\<close>, \<open>o3\<close> in key order, sum to 0, each
  gets the integer third of \<open>remaining = 100 - val\<close> and the first of them the leftover
  \<open>remaining mod 3\<close> as well.
\<close>

theorem setAlloc_equal_split:
  assumes "filter (\<lambda>k. k \<noteq> ch) keys = [o1, o2, o3]"
    and "x o1 + x o2 + x o3 = 0"
  shows "let v = clamp_round r; remaining = 100 - v;
             m' = setAllocForChannel (\<lambda>k. Fin (x k)) ch (Fin r)
         in m' ch = Num v \<and>
            m' o1 = Num (remaining div 3 + remaining mod 3) \<and>
            m' o2 = Num (remaining div 3) \<and>
            m' o3 = Num (remaining div 3)"
  using equal_split_val [OF assms(1), of x "clamp_round r" "Fin r"] assms(2)
    clamp_round_range [of r] val_raw(1) [of r]
  by (simp add: Let_def)

theorem setAlloc_equal_split_witness:
  "setAllocForChannel (\<lambda>k. Fin (if k = TV then 50 else 0)) TV (Fin (99 / 2)) =
     alloc_of (Num 18) (Num 50) (Num 16) (Num 16)"
proof (rule ext)
  fix k
  have c: "clamp_round (99 / 2) = 50" by (simp add: clamp_round_def)
  have o: "filter (\<lambda>k. k \<noteq> TV) keys = [OOH, Digital, CTV]" by (simp add: keys_def)
  show "setAllocForChannel (\<lambda>k. Fin (if k = TV then 50 else 0)) TV (Fin (99 / 2)) k =
     alloc_of (Num 18) (Num 50) (Num 16) (Num 16) k"
    using setAlloc_equal_split [OF o, of "\<lambda>k. if k = TV then 50 else 0" "99 / 2"]
    by (cases k) (simp_all add: c Let_def)
qed

section \<open>The composite improvement\<close>





section \<open>Inputs out of range\<close>









section \<open>The performance log\<close>

lemma applyImprovement_Inr:
  assumes "performanceData st \<noteq> []"
  shows "\<exists>act. applyImprovement insights numToString label impr st =
           Inr \<lparr>performanceData = performanceData st @
                  [\<lparr>cycle = ''Forecast: '' @ label,
                    actualCPA = actualCPA (last (performanceData st)),
                    actualConversions = actualConversions (last (performanceData st)),
                    forecastCPA = CPA (computeForecast
                      \<lparr>CPA = forecastCPA (last (performanceData st)),
                       Conversions = forecastConversions (last (performanceData st))\<rparr>
                      (imp insights label impr)),
                    forecastConversions = Conversions (computeForecast
                      \<lparr>CPA = forecastCPA (last (performanceData st)),
                       Conversions = forecastConversions (last (performanceData st))\<rparr>
                      (imp insights label impr))\<rparr>],
                 aiActivities = aiActivities st @ [act]\<rparr>"
  using assms by (simp add: applyImprovement_def Let_def)

text \<open>
  C6. On a non-empty log, \<open>applyImprovement\<close> returns the log with one point added at
  the end and the earlier points as they were. The new point carries the actual values
  of the previous last point, and its forecast values are \<open>computeForecast\<close> of the
  previous last point's forecast values and the improvement \<open>imp\<close>, which is the
  argument when one is given.
\<close>

theorem applyImprovement_appends:
  assumes "performanceData st \<noteq> []"
  shows "\<exists>p act.
           applyImprovement insights numToString label impr st =
             Inr \<lparr>performanceData = performanceData st @ [p],
                  aiActivities = aiActivities st @ [act]\<rparr> \<and>
           actualCPA p = actualCPA (last (performanceData st)) \<and>
           actualConversions p = actualConversions (last (performanceData st)) \<and>
           \<lparr>CPA = forecastCPA p, Conversions = forecastConversions p\<rparr> =
             computeForecast
               \<lparr>CPA = forecastCPA (last (performanceData st)),
                Conversions = forecastConversions (last (performanceData st))\<rparr>
               (imp insights label impr) \<and>
           imp insights label (Some v) = v"
proof -
  from applyImprovement_Inr [OF assms] obtain act where
    "applyImprovement insights numToString label impr st =
           Inr \<lparr>performanceData = performanceData st @
                  [\<lparr>cycle = ''Forecast: '' @ label,
                    actualCPA = actualCPA (last (performanceData st)),
                    actualConversions = actualConversions (last (performanceData st)),
                    forecastCPA = CPA (computeForecast
                      \<lparr>CPA = forecastCPA (last (performanceData st)),
                       Conversions = forecastConversions (last (performanceData st))\<rparr>
                      (imp insights label impr)),
                    forecastConversions = Conversions (computeForecast
                      \<lparr>CPA = forecastCPA (last (performanceData st)),
                       Conversions = forecastConversions (last (performanceData st))\<rparr>
                      (imp insights label impr))\<rparr>],
                 aiActivities = aiActivities st @ [act]\<rparr>"
    by blast
  moreover have "imp insights label (Some v) = v"
    by (simp add: imp_def)
  ultimately show ?thesis
    by (intro exI conjI) (assumption, simp_all)
qed

theorem applyImprovement_appends_witness:
  "\<exists>act. applyImprovement baseInsights (\<lambda>n. []) ''Creative'' None
      \<lparr>performanceData = initialPerformanceData, aiActivities = []\<rparr> =
    Inr \<lparr>performanceData = initialPerformanceData @
            [\<lparr>cycle = ''Forecast: Creative'', actualCPA = Fin 38, actualConversions = Fin 195,
              forecastCPA = Fin (176 / 5), forecastConversions = Fin 213\<rparr>],
         aiActivities = [act]\<rparr>"
proof -
  have ne: "performanceData \<lparr>performanceData = initialPerformanceData, aiActivities = []\<rparr> \<noteq> []"
    by (simp add: initialPerformanceData_def)
  have i: "imp baseInsights ''Creative'' None = Fin 12"
    by (simp add: imp_def findParentPanel_def lookup_insight_def baseInsights_def or_zero_def)
  have l: "last initialPerformanceData =
      \<lparr>cycle = ''Cycle 4'', actualCPA = Fin 38, actualConversions = Fin 195,
       forecastCPA = Fin 40, forecastConversions = Fin 190\<rparr>"
    by (simp add: initialPerformanceData_def)
  have f: "computeForecast \<lparr>CPA = Fin 40, Conversions = Fin 190\<rparr> (Fin 12) =
      \<lparr>CPA = Fin (176 / 5), Conversions = Fin 213\<rparr>"
    by (simp add: computeForecast_def jsub_def)
  from applyImprovement_appends [OF ne, where insights = baseInsights
      and numToString = "\<lambda>n. []" and label = "''Creative''" and impr = None and v = NaN]
  obtain p act where
    r: "applyImprovement baseInsights (\<lambda>n. []) ''Creative'' None
          \<lparr>performanceData = initialPerformanceData, aiActivities = []\<rparr> =
        Inr \<lparr>performanceData = initialPerformanceData @ [p], aiActivities = [act]\<rparr>"
    by auto
  then have "p = \<lparr>cycle = ''Forecast: Creative'', actualCPA = Fin 38, actualConversions = Fin 195,
              forecastCPA = Fin (176 / 5), forecastConversions = Fin 213\<rparr>"
    using ne by (simp add: applyImprovement_def Let_def i l f)
  with r show ?thesis by blast
qed

lemma findParentPanel_unknown:
  assumes "label \<notin> set (map fst insights)"
    and "label \<notin> set (map name mediaInventorySubcategories)"
    and "label \<notin> set (map name dataFeedSubcategories)"
  shows "findParentPanel insights label = None"
  using assms by (auto simp: findParentPanel_def list_ex_iff)

text \<open>
  C9. For a label that is no key of the insight table and no subcategory name, and no
  improvement argument, the lookup gives no panel, the improvement is 0, and on a
  non-empty log the call succeeds with forecast values \<open>computeForecast\<close> of the
  previous forecast values and 0.
\<close>

theorem applyImprovement_unknown_label:
  assumes "label \<notin> set (map fst insights)"
    and "label \<notin> set (map name mediaInventorySubcategories)"
    and "label \<notin> set (map name dataFeedSubcategories)"
    and "performanceData st \<noteq> []"
  shows "findParentPanel insights label = None \<and>
         imp insights label None = Fin 0 \<and>
         (\<exists>p act.
            applyImprovement insights numToString label None st =
              Inr \<lparr>performanceData = performanceData st @ [p],
                   aiActivities = aiActivities st @ [act]\<rparr> \<and>
            \<lparr>CPA = forecastCPA p, Conversions = forecastConversions p\<rparr> =
              computeForecast
                \<lparr>CPA = forecastCPA (last (performanceData st)),
                 Conversions = forecastConversions (last (performanceData st))\<rparr>
                (Fin 0))"
proof -
  have none: "findParentPanel insights label = None"
    using assms(1-3) by (rule findParentPanel_unknown)
  then have zero: "imp insights label None = Fin 0"
    by (simp add: imp_def lookup_insight_def)
  from applyImprovement_Inr [OF assms(4), of insights numToString label None]
  obtain act where
    "applyImprovement insights numToString label None st =
           Inr \<lparr>performanceData = performanceData st @
                  [\<lparr>cycle = ''Forecast: '' @ label,
                    actualCPA = actualCPA (last (performanceData st)),
                    actualConversions = actualConversions (last (performanceData st)),
                    forecastCPA = CPA (computeForecast
                      \<lparr>CPA = forecastCPA (last (performanceData st)),
                       Conversions = forecastConversions (last (performanceData st))\<rparr>
                      (Fin 0)),
                    forecastConversions = Conversions (computeForecast
                      \<lparr>CPA = forecastCPA (last (performanceData st)),
                       Conversions = forecastConversions (last (performanceData st))\<rparr>
                      (Fin 0))\<rparr>],
                 aiActivities = aiActivities st @ [act]\<rparr>"
    unfolding zero by blast
  then have "\<exists>p act.
            applyImprovement insights numToString label None st =
              Inr \<lparr>performanceData = performanceData st @ [p],
                   aiActivities = aiActivities st @ [act]\<rparr> \<and>
            \<lparr>CPA = forecastCPA p, Conversions = forecastConversions p\<rparr> =
              computeForecast
                \<lparr>CPA = forecastCPA (last (performanceData st)),
                 Conversions = forecastConversions (last (performanceData st))\<rparr>
                (Fin 0)"
    by (intro exI conjI) (assumption, simp)
  with none zero show ?thesis by blast
qed

theorem applyImprovement_unknown_label_witness:
  "findParentPanel inlineInsights ''Media Composite'' = None \<and>
   imp inlineInsights ''Media Composite'' None = Fin 0 \<and>
   (\<exists>p act.
      applyImprovement inlineInsights (\<lambda>n. []) ''Media Composite'' None
        \<lparr>performanceData = initialPerformanceData, aiActivities = []\<rparr> =
      Inr \<lparr>performanceData = initialPerformanceData @ [p], aiActivities = [act]\<rparr> \<and>
      \<lparr>CPA = forecastCPA p, Conversions = forecastConversions p\<rparr> =
        \<lparr>CPA = Fin 40, Conversions = Fin 190\<rparr>)"
proof -
  have ne: "performanceData \<lparr>performanceData = initialPerformanceData, aiActivities = []\<rparr> \<noteq> []"
    by (simp add: initialPerformanceData_def)
  have k1: "''Media Composite'' \<notin> set (map fst inlineInsights)"
    by (simp add: inlineInsights_def baseInsights_def)
  have k2: "''Media Composite'' \<notin> set (map name mediaInventorySubcategories)"
    by (simp add: mediaInventorySubcategories_def)
  have k3: "''Media Composite'' \<notin> set (map name dataFeedSubcategories)"
    by (simp add: dataFeedSubcategories_def)
  have l: "last initialPerformanceData =
      \<lparr>cycle = ''Cycle 4'', actualCPA = Fin 38, actualConversions = Fin 195,
       forecastCPA = Fin 40, forecastConversions = Fin 190\<rparr>"
    by (simp add: initialPerformanceData_def)
  have f: "computeForecast \<lparr>CPA = Fin 40, Conversions = Fin 190\<rparr> (Fin 0) =
      \<lparr>CPA = Fin 40, Conversions = Fin 190\<rparr>"
    by (simp add: computeForecast_def jsub_def)
  show ?thesis
    using applyImprovement_unknown_label [OF k1 k2 k3 ne, of "\<lambda>n. []"]
    by (simp add: l f)
qed

text \<open>From a non-empty log no sequence of apply actions fails, and each adds one point.\<close>

lemma applyAll_total:
  "performanceData st \<noteq> [] \<Longrightarrow>
   \<exists>st' ps. applyAll insights numToString cs st = Inr st' \<and>
            performanceData st' = performanceData st @ ps \<and> length ps = length cs"
proof (induction cs arbitrary: st)
  case Nil
  then show ?case by simp
next
  case (Cons c cs)
  obtain label impr where c: "c = (label, impr)" by (cases c)
  from applyImprovement_Inr [OF Cons.prems, of insights numToString label impr]
  obtain st1 p where s1: "applyImprovement insights numToString label impr st = Inr st1"
    and p1: "performanceData st1 = performanceData st @ [p]"
    by auto
  then have "performanceData st1 \<noteq> []" by simp
  from Cons.IH [OF this] obtain st' ps where
    "applyAll insights numToString cs st1 = Inr st'"
    "performanceData st' = performanceData st1 @ ps" "length ps = length cs"
    by blast
  with s1 p1 c show ?case
    by (intro exI [of _ st'] exI [of _ "p # ps"]) simp
qed

lemma applyAll_from_initial:
  "\<exists>st' ps. applyAll insights numToString cs
              \<lparr>performanceData = initialPerformanceData, aiActivities = acts\<rparr> = Inr st' \<and>
            performanceData st' = initialPerformanceData @ ps \<and> length ps = length cs"
  using applyAll_total [of "\<lparr>performanceData = initialPerformanceData, aiActivities = acts\<rparr>"]
  by (simp add: initialPerformanceData_def)

end
